theory Spec2Isabelle
  imports Complex_Main "HOL-Library.Word"
begin

section \<open>JavaScript strings\<close>

text \<open>
  A JavaScript string is a sequence of UTF-16 code units. The regular expressions of
  \<^verbatim>\<open>App.tsx\<close> carry no \<^verbatim>\<open>u\<close> flag, so they too work on code units.
\<close>

type_synonym jschar = "16 word"
type_synonym jsstring = "jschar list"

definition js :: "string \<Rightarrow> jsstring" where
  \<comment> \<open>an ASCII literal of the source, as code units\<close>
  "js s = map of_char s"

definition NL :: jschar where
  "NL = 10"

definition is_ws :: "jschar \<Rightarrow> bool" where
  \<comment> \<open>the class \<^verbatim>\<open>\s\<close>, which is also what \<^verbatim>\<open>String.prototype.trim\<close> removes:
      WhiteSpace and LineTerminator of ECMAScript\<close>
  "is_ws c = (c = 9 \<or> c = 10 \<or> c = 11 \<or> c = 12 \<or> c = 13 \<or> c = 32 \<or> c = 160
     \<or> c = 5760 \<or> (8192 \<le> c \<and> c \<le> 8202) \<or> c = 8232 \<or> c = 8233 \<or> c = 8239
     \<or> c = 8287 \<or> c = 12288 \<or> c = 65279)"

definition is_digit :: "jschar \<Rightarrow> bool" where
  \<comment> \<open>the class \<^verbatim>\<open>\d\<close>\<close>
  "is_digit c = (48 \<le> c \<and> c \<le> 57)"

definition is_word :: "jschar \<Rightarrow> bool" where
  \<comment> \<open>the class \<^verbatim>\<open>\w\<close>\<close>
  "is_word c = ((65 \<le> c \<and> c \<le> 90) \<or> (97 \<le> c \<and> c \<le> 122) \<or> is_digit c \<or> c = 95)"

definition is_bullet :: "jschar \<Rightarrow> bool" where
  \<comment> \<open>the first alternative of the list-item pattern, a class of five code units:
      U+2022, U+25CF, U+25AA, the asterisk and the hyphen\<close>
  "is_bullet c = (c = 8226 \<or> c = 9679 \<or> c = 9642 \<or> c = 42 \<or> c = 45)"

definition trim :: "jsstring \<Rightarrow> jsstring" where
  "trim s = rev (dropWhile is_ws (rev (dropWhile is_ws s)))"

fun join :: "jsstring \<Rightarrow> jsstring list \<Rightarrow> jsstring" where
  "join sep [] = []"
| "join sep [x] = x"
| "join sep (x # y # ys) = x @ sep @ join sep (y # ys)"

fun split_nl :: "jsstring \<Rightarrow> jsstring list" where
  \<comment> \<open>\<^verbatim>\<open>s.split('\n')\<close>: always at least one piece\<close>
  "split_nl [] = [[]]"
| "split_nl (c # cs) =
     (if c = NL then [] # split_nl cs
      else (case split_nl cs of [] \<Rightarrow> [[c]] | p # ps \<Rightarrow> (c # p) # ps))"

definition starts_ws :: "jsstring \<Rightarrow> bool" where
  \<comment> \<open>the next code unit exists and matches \<^verbatim>\<open>\s\<close>\<close>
  "starts_ws s = (case s of [] \<Rightarrow> False | c # _ \<Rightarrow> is_ws c)"

definition isListItem :: "jsstring \<Rightarrow> bool" where
  \<comment> \<open>\<^verbatim>\<open>/^\s*([bullets]|\d+\.|\w\))\s/.test(s)\<close>. No alternative starts with white
      space and no digit is a full stop, so only the longest runs of \<^verbatim>\<open>\s*\<close> and
      \<^verbatim>\<open>\d+\<close> can lead to a match.\<close>
  "isListItem s =
     (let r = dropWhile is_ws s in
        (case r of [] \<Rightarrow> False | c # r' \<Rightarrow> is_bullet c \<and> starts_ws r')
      \<or> (takeWhile is_digit r \<noteq> [] \<and>
           (case dropWhile is_digit r of [] \<Rightarrow> False | c # r' \<Rightarrow> c = 46 \<and> starts_ws r'))
      \<or> (case r of c # d # r' \<Rightarrow> is_word c \<and> d = 41 \<and> starts_ws r' | _ \<Rightarrow> False))"

section \<open>The generic structured-text parser\<close>

definition getIndentation :: "jsstring \<Rightarrow> nat" where
  \<comment> \<open>\<^verbatim>\<open>line.match(/^\s*/)?.[0].length ?? 0\<close>\<close>
  "getIndentation line = length (takeWhile is_ws line)"

record heading =
  level :: nat
  htext :: jsstring

definition is_hash :: "jschar \<Rightarrow> bool" where
  "is_hash c = (c = 35)"

definition getHeadingLevel :: "jsstring \<Rightarrow> nat" where
  \<comment> \<open>\<^verbatim>\<open>line.trim().match(/^(#+)\s/)\<close>: the length of the run of hashes, 0 without a match\<close>
  "getHeadingLevel line =
     (let t = trim line in
      if starts_ws (dropWhile is_hash t) then length (takeWhile is_hash t) else 0)"

definition headingText :: "jsstring \<Rightarrow> jsstring" where
  \<comment> \<open>\<^verbatim>\<open>line.trim().replace(/^#+\s/, '')\<close>\<close>
  "headingText line =
     (let t = trim line in
      if takeWhile is_hash t \<noteq> [] \<and> starts_ws (dropWhile is_hash t)
      then tl (dropWhile is_hash t) else t)"

function popWhile :: "('a \<Rightarrow> bool) \<Rightarrow> 'a list \<Rightarrow> 'a list" where
  \<comment> \<open>\<^verbatim>\<open>while (path.length > 0 && P(path[path.length - 1])) path.pop()\<close>;
      the top of the stack is the last element\<close>
  "popWhile P st = (if st \<noteq> [] \<and> P (last st) then popWhile P (butlast st) else st)"
  by pat_completeness auto
termination
  by (relation "measure (\<lambda>(P, st). length st)") auto

declare popWhile.simps [simp del]

definition pushHeading :: "nat \<Rightarrow> jsstring \<Rightarrow> heading list \<Rightarrow> heading list" where
  \<comment> \<open>pop every open heading of level \<^verbatim>\<open>>= level\<close>, then push\<close>
  "pushHeading lv t path = popWhile (\<lambda>h. level h \<ge> lv) path @ [\<lparr>level = lv, htext = t\<rparr>]"

definition breadcrumb :: "jsstring list \<Rightarrow> jsstring" where
  \<comment> \<open>\<^verbatim>\<open>headingPath.map(h => h.text).join(' > ')\<close>\<close>
  "breadcrumb ts = join (js '' > '') ts"

definition blank_sep :: "jsstring \<Rightarrow> jsstring option" where
  \<comment> \<open>a match of \<^verbatim>\<open>/\n\s*\n/\<close> at the start of the string: what follows the match.
      The greedy \<^verbatim>\<open>\s*\<close> backtracks to the last line feed of the white-space run.\<close>
  "blank_sep s =
     (case s of [] \<Rightarrow> None
      | c # r \<Rightarrow>
          if c = NL \<and> NL \<in> set (takeWhile is_ws r)
          then Some (drop (length (takeWhile is_ws r)
                             - length (takeWhile (\<lambda>d. d \<noteq> NL) (rev (takeWhile is_ws r)))) r)
          else None)"

function split_blank :: "jsstring \<Rightarrow> jsstring \<Rightarrow> jsstring list" where
  \<comment> \<open>\<^verbatim>\<open>s.split(/\n\s*\n/)\<close> for a non-empty \<^verbatim>\<open>s\<close>; the first argument is the
      piece collected so far\<close>
  "split_blank cur [] = [cur]"
| "split_blank cur (c # cs) =
     (case blank_sep (c # cs) of
        Some r \<Rightarrow> cur # split_blank [] r
      | None \<Rightarrow> split_blank (cur @ [c]) cs)"
  by pat_completeness auto
termination
  by (relation "measure (\<lambda>(cur, s). length s)")
     (auto simp: blank_sep_def split: list.splits if_splits)

record md_state =
  doses :: "jsstring list"
  headingPath :: "heading list"
  currentContentLines :: "jsstring list"

definition blockItems :: "jsstring \<Rightarrow> jsstring list" where
  \<comment> \<open>\<^verbatim>\<open>itemsToProcess\<close>: a block all of whose lines are list items gives one item per
      non-blank line\<close>
  "blockItems block =
     (if list_all (\<lambda>line. isListItem (trim line)) (split_nl block)
      then filter (\<lambda>li. trim li \<noteq> []) (split_nl block) else [block])"

definition withBreadcrumbs :: "heading list \<Rightarrow> jsstring \<Rightarrow> jsstring" where
  "withBreadcrumbs path item =
     (if path \<noteq> [] then breadcrumb (map htext path) @ [NL, NL] @ item else item)"

definition processContentBlock :: "md_state \<Rightarrow> md_state" where
  "processContentBlock st =
     (if currentContentLines st = [] then st
      else let content = trim (join [NL] (currentContentLines st)) in
        if content = [] then st\<lparr>currentContentLines := []\<rparr>
        else let blocks = filter (\<lambda>b. trim b \<noteq> []) (split_blank [] content) in
          st\<lparr>doses := doses st
                 @ concat (map (\<lambda>block. map (withBreadcrumbs (headingPath st)) (blockItems block))
                             blocks),
             currentContentLines := []\<rparr>)"

definition md_line :: "md_state \<Rightarrow> jsstring \<Rightarrow> md_state" where
  \<comment> \<open>the body of \<^verbatim>\<open>for (const line of markdownLines)\<close>\<close>
  "md_line st line =
     (let lv = getHeadingLevel line in
      if lv > 0 then
        (let st' = processContentBlock st in
         st'\<lparr>headingPath := pushHeading lv (headingText line) (headingPath st')\<rparr>)
      else st\<lparr>currentContentLines := currentContentLines st @ [line]\<rparr>)"

definition md_init :: md_state where
  "md_init = \<lparr>doses = [], headingPath = [], currentContentLines = []\<rparr>"

definition md_pass :: "jsstring list \<Rightarrow> md_state" where
  \<comment> \<open>CASE 2 up to the last \<^verbatim>\<open>processContentBlock()\<close>\<close>
  "md_pass ls = processContentBlock (foldl md_line md_init ls)"

definition ancestors :: "(jsstring \<times> nat) list \<Rightarrow> nat \<Rightarrow> jsstring list" where
  \<comment> \<open>the loop \<^verbatim>\<open>for (j = branchStartIndex - 1; j >= 0; j--)\<close>: the state is the list of
      ancestors and \<^verbatim>\<open>currentIndent\<close>\<close>
  "ancestors lineData start =
     fst (fold (\<lambda>(t, ind) (anc, cur). if ind < cur then (t # anc, ind) else (anc, cur))
            (rev (take start lineData)) ([], snd (lineData ! start)))"

definition branchDose :: "(jsstring \<times> nat) list \<Rightarrow> nat list \<Rightarrow> nat \<Rightarrow> jsstring" where
  \<comment> \<open>the body of \<^verbatim>\<open>for (i = 0; i < branchStartIndices.length; i++)\<close>\<close>
  "branchDose lineData starts i =
     (let branchStartIndex = starts ! i;
          branchEndIndex = (if i + 1 < length starts then starts ! (i + 1) else length lineData);
          branchLines = map fst (take (branchEndIndex - branchStartIndex)
                                   (drop branchStartIndex lineData))
      in join [NL] (ancestors lineData branchStartIndex @ branchLines))"

definition indentedDoses :: "jsstring list \<Rightarrow> jsstring list option" where
  \<comment> \<open>CASE 1; \<^verbatim>\<open>None\<close> where the source falls through to CASE 2\<close>
  "indentedDoses ls =
     (let lineData = map (\<lambda>line. (line, getIndentation line)) ls in
      case filter (\<lambda>n. n > 0) (map snd lineData) of
        [] \<Rightarrow> Some ls
      | n # ns \<Rightarrow>
          let firstBranchIndent = fold min ns n;
              branchStartIndices =
                filter (\<lambda>i. snd (lineData ! i) = firstBranchIndent) [0 ..< length lineData]
          in if length branchStartIndices > 0
             then Some (map (branchDose lineData branchStartIndices)
                          [0 ..< length branchStartIndices])
             else None)"

definition parseStructuredText :: "jsstring \<Rightarrow> jsstring list" where
  "parseStructuredText txt =
     (let trimmedText = trim txt in
      if trimmedText = [] then []
      else let ls = split_nl trimmedText;
               hasIndentation = list_ex (\<lambda>line. getIndentation line > 0) ls
           in case (if hasIndentation then indentedDoses ls else None) of
                Some ds \<Rightarrow> ds
              | None \<Rightarrow>
                  let ds = doses (md_pass (split_nl trimmedText)) in
                  if length ds > 0 then ds else [trimmedText])"

section \<open>The PDF extractor\<close>

text \<open>
  Numbers are modelled as reals: the extractor only adds, multiplies and compares them,
  and \<^verbatim>\<open>NaN\<close> is left out. What the browser and pdf.js do (loading a page, resolving an
  image object, creating a canvas, encoding a data URL) is input of the model.
\<close>

function show_nat :: "nat \<Rightarrow> jsstring" where
  \<comment> \<open>a page number or list index inside a template literal\<close>
  "show_nat n = (if n < 10 then [48 + of_nat n] else show_nat (n div 10) @ [48 + of_nat (n mod 10)])"
  by pat_completeness auto
termination
  by (relation "measure id") auto

declare show_nat.simps [simp del]

type_synonym matrix = "real \<times> real \<times> real \<times> real \<times> real \<times> real"

definition identityMatrix :: matrix where
  "identityMatrix = (1, 0, 0, 1, 0, 0)"

fun transformMatrix :: "matrix \<Rightarrow> matrix \<Rightarrow> matrix" where
  "transformMatrix (a0, a1, a2, a3, a4, a5) (b0, b1, b2, b3, b4, b5) =
     (a0 * b0 + a2 * b1, a1 * b0 + a3 * b1,
      a0 * b2 + a2 * b3, a1 * b2 + a3 * b3,
      a0 * b4 + a2 * b5 + a4, a1 * b4 + a3 * b5 + a5)"

fun matrix5 :: "matrix \<Rightarrow> real" where
  \<comment> \<open>\<^verbatim>\<open>currentMatrix[5]\<close>\<close>
  "matrix5 (a0, a1, a2, a3, a4, a5) = a5"

record raster =
  img_width :: nat
  img_height :: nat
  img_data :: "8 word list"
  colorspace :: "jsstring option"

datatype objs_result =
    ObjThrows \<comment> \<open>\<^verbatim>\<open>page.objs.get\<close> raises\<close>
  | ObjMissing \<comment> \<open>\<^verbatim>\<open>!img || !img.data\<close>\<close>
  | ObjImage raster

datatype canvas_result =
    CanvasThrows \<comment> \<open>creating the canvas or its image data raises\<close>
  | NoContext \<comment> \<open>\<^verbatim>\<open>getContext('2d')\<close> is null\<close>
  | Context

record dom =
  canvas :: "nat \<Rightarrow> nat \<Rightarrow> canvas_result"
  toDataURL :: "nat \<Rightarrow> nat \<Rightarrow> 8 word list \<Rightarrow> jsstring"

datatype pdf_op = Save | Restore | Transform matrix | PaintImageXObject jsstring | OtherOp

datatype PageElement =
    TextEl jsstring real real real "jsstring option" \<comment> \<open>text, x, y, height, fontName\<close>
  | ImageEl jsstring real nat nat \<comment> \<open>dataUrl, y, width, height\<close>

fun el_y :: "PageElement \<Rightarrow> real" where
  "el_y (TextEl t x y h f) = y"
| "el_y (ImageEl u y w h) = y"

record text_item =
  str :: jsstring
  tx :: real \<comment> \<open>\<^verbatim>\<open>transform[4]\<close>\<close>
  ty :: real \<comment> \<open>\<^verbatim>\<open>transform[5]\<close>\<close>
  item_height :: real
  fontName :: "jsstring option"

subsection \<open>Step 1: text lines\<close>

definition round_js :: "real \<Rightarrow> int" where
  \<comment> \<open>\<^verbatim>\<open>Math.round\<close>: ties go up\<close>
  "round_js v = \<lfloor>v + 1 / 2\<rfloor>"

fun linesMap_add :: "int \<Rightarrow> text_item \<Rightarrow> (int \<times> text_item list) list \<Rightarrow> (int \<times> text_item list) list" where
  \<comment> \<open>a \<^verbatim>\<open>Map\<close> keeps its keys in insertion order\<close>
  "linesMap_add k it [] = [(k, [it])]"
| "linesMap_add k it ((k', its) # m) =
     (if k = k' then (k', its @ [it]) # m else (k', its) # linesMap_add k it m)"

definition linesMap :: "text_item list \<Rightarrow> (int \<times> text_item list) list" where
  "linesMap items = foldl (\<lambda>m it. linesMap_add (round_js (ty it)) it m) [] items"

definition lineElement :: "int \<times> text_item list \<Rightarrow> PageElement list" where
  \<comment> \<open>one entry of the map; every entry has at least one item\<close>
  "lineElement e =
     (let sortedItems = sort_key tx (snd e);
          t = join [32] (map str sortedItems)
      in if trim t \<noteq> []
         then [TextEl t (case sortedItems of [] \<Rightarrow> 0 | i # _ \<Rightarrow> tx i) (of_int (fst e))
                 (fold max (map item_height sortedItems) 0)
                 (case sortedItems of [] \<Rightarrow> None | i # _ \<Rightarrow> fontName i)]
         else [])"

definition textLines :: "text_item list \<Rightarrow> PageElement list" where
  "textLines items = concat (map lineElement (sort_key (\<lambda>e. - fst e) (linesMap items)))"

subsection \<open>Step 2: images\<close>

definition accented :: "string \<Rightarrow> jsstring" where
  \<comment> \<open>a Portuguese literal of the source, written in ASCII: \<^verbatim>\<open>~\<close> stands for U+00E3,
      \<^verbatim>\<open>^\<close> for U+00ED, \<^verbatim>\<open>`\<close> for U+00E1 and \<^verbatim>\<open>|\<close> for U+00E9\<close>
  "accented s = map (\<lambda>c. if c = CHR ''~'' then 227 else if c = CHR ''^'' then 237
                         else if c = CHR ''`'' then 225 else if c = CHR ''|'' then 233
                         else of_char c) s"

definition unsupportedWarning :: "nat \<Rightarrow> jsstring \<Rightarrow> jsstring" where
  "unsupportedWarning pageNum colorSpace =
     accented ''N~o foi poss^vel processar uma imagem na p`gina '' @ show_nat pageNum
     @ js ''. O formato de cor ('' @ colorSpace @ accented '') n~o | suportado.''"

definition imageFailedWarning :: "nat \<Rightarrow> jsstring" where
  "imageFailedWarning pageNum =
     accented ''N~o foi poss^vel processar uma imagem na p`gina '' @ show_nat pageNum
     @ accented ''. O formato pode n~o ser suportado ou a imagem est` corrompida.''"

definition pageFailedWarning :: "nat \<Rightarrow> jsstring" where
  "pageFailedWarning pageNum =
     accented ''Falha ao processar a p`gina '' @ show_nat pageNum
     @ accented ''. A p`gina pode estar corrompida e foi ignorada.''"

fun rgb_to_rgba :: "8 word list \<Rightarrow> 8 word list" where
  "rgb_to_rgba (r # g # b # rest) = r # g # b # 255 # rgb_to_rgba rest"
| "rgb_to_rgba _ = []"

definition gray_to_rgba :: "8 word list \<Rightarrow> 8 word list" where
  "gray_to_rgba d = concat (map (\<lambda>v. [v, v, v, 255]) d)"

definition normalize :: "raster \<Rightarrow> 8 word list option" where
  \<comment> \<open>the three supported layouts, tested in the source's order; \<^verbatim>\<open>None\<close> is
      \<^verbatim>\<open>formatSupported == false\<close>\<close>
  "normalize img =
     (let n = img_width img * img_height img; d = img_data img in
      if length d = n * 3 then Some (rgb_to_rgba d)
      else if length d = n * 4 then Some d
      else if length d = n then Some (gray_to_rgba d)
      else None)"

definition colorSpaceName :: "raster \<Rightarrow> jsstring" where
  \<comment> \<open>\<^verbatim>\<open>img.colorspace?.name || 'desconhecido'\<close>\<close>
  "colorSpaceName img =
     (case colorspace img of None \<Rightarrow> js ''desconhecido''
      | Some n \<Rightarrow> if n = [] then js ''desconhecido'' else n)"

record op_state =
  matrixStack :: "matrix list"
  currentMatrix :: matrix
  pageElements :: "PageElement list"
  warnings :: "jsstring list"

definition paintImage :: "dom \<Rightarrow> (jsstring \<Rightarrow> objs_result) \<Rightarrow> nat \<Rightarrow> jsstring \<Rightarrow> op_state \<Rightarrow> op_state" where
  "paintImage d objs pageNum imgRef st =
     (case objs imgRef of
        ObjThrows \<Rightarrow> st\<lparr>warnings := warnings st @ [imageFailedWarning pageNum]\<rparr>
      | ObjMissing \<Rightarrow> st
      | ObjImage img \<Rightarrow>
          (case canvas d (img_width img) (img_height img) of
             CanvasThrows \<Rightarrow> st\<lparr>warnings := warnings st @ [imageFailedWarning pageNum]\<rparr>
           | NoContext \<Rightarrow> st
           | Context \<Rightarrow>
               (case normalize img of
                  Some rgba \<Rightarrow>
                    st\<lparr>pageElements := pageElements st
                          @ [ImageEl (toDataURL d (img_width img) (img_height img) rgba)
                               (matrix5 (currentMatrix st)) (img_width img) (img_height img)]\<rparr>
                | None \<Rightarrow>
                    st\<lparr>warnings := warnings st
                          @ [unsupportedWarning pageNum (colorSpaceName img)]\<rparr>)))"

definition pdf_operator :: "dom \<Rightarrow> (jsstring \<Rightarrow> objs_result) \<Rightarrow> nat \<Rightarrow> op_state \<Rightarrow> pdf_op \<Rightarrow> op_state" where
  \<comment> \<open>the body of the loop over \<^verbatim>\<open>operatorList.fnArray\<close>\<close>
  "pdf_operator d objs pageNum st opr =
     (case opr of
        Save \<Rightarrow> st\<lparr>matrixStack := matrixStack st @ [currentMatrix st]\<rparr>
      | Restore \<Rightarrow>
          (if matrixStack st = []
           then st\<lparr>currentMatrix := identityMatrix\<rparr>
           else st\<lparr>matrixStack := butlast (matrixStack st),
                   currentMatrix := last (matrixStack st)\<rparr>)
      | Transform m \<Rightarrow> st\<lparr>currentMatrix := transformMatrix (currentMatrix st) m\<rparr>
      | PaintImageXObject imgRef \<Rightarrow> paintImage d objs pageNum imgRef st
      | OtherOp \<Rightarrow> st)"

definition run_ops :: "dom \<Rightarrow> (jsstring \<Rightarrow> objs_result) \<Rightarrow> nat \<Rightarrow> pdf_op list \<Rightarrow> op_state \<Rightarrow> op_state" where
  "run_ops d objs pageNum ops st = foldl (pdf_operator d objs pageNum) st ops"

subsection \<open>Steps 3 and 4: from the sorted elements to doses\<close>

record pdf_heading =
  h_height :: real
  h_text :: jsstring

record page_state =
  pdf_doses :: "jsstring list"
  pdf_headingPath :: "pdf_heading list"
  currentBlockLines :: "jsstring list"
  lastLine :: "(real \<times> real) option" \<comment> \<open>y and height\<close>

definition endsWith :: "jschar \<Rightarrow> jsstring \<Rightarrow> bool" where
  "endsWith c s = (s \<noteq> [] \<and> last s = c)"

definition foldLine :: "jsstring \<Rightarrow> jsstring \<Rightarrow> jsstring" where
  \<comment> \<open>the callback of \<^verbatim>\<open>currentBlockLines.reduce\<close>\<close>
  "foldLine acc line =
     (let lineText = trim line; accTrimmed = trim acc in
      if endsWith 45 accTrimmed then butlast accTrimmed @ lineText
      else if acc = [] then lineText
      else acc @ [32] @ lineText)"

definition blockText :: "jsstring list \<Rightarrow> jsstring" where
  \<comment> \<open>\<^verbatim>\<open>contentText\<close>; \<^verbatim>\<open>listItemsCount >= length / 2\<close> is written without the division\<close>
  "blockText ls =
     (let listItemsCount = length (filter (\<lambda>line. isListItem (trim line)) ls);
          isList = (listItemsCount > 0 \<and> 2 * listItemsCount \<ge> length ls)
      in if isList then join [NL] (map trim ls)
         else trim (foldl foldLine [] ls))"

definition prefixed :: "jsstring list \<Rightarrow> jsstring \<Rightarrow> jsstring" where
  \<comment> \<open>a dose under the headings whose texts are given\<close>
  "prefixed ts content =
     (if breadcrumb ts \<noteq> [] then breadcrumb ts @ [NL, NL] @ content else content)"

definition finalizeBlock :: "page_state \<Rightarrow> page_state" where
  "finalizeBlock st =
     (if currentBlockLines st = [] then st
      else let contentText = blockText (currentBlockLines st) in
        (if contentText \<noteq> []
         then st\<lparr>pdf_doses := pdf_doses st
                    @ [prefixed (map h_text (pdf_headingPath st)) contentText]\<rparr>
         else st)\<lparr>currentBlockLines := []\<rparr>)"

definition ascii_upper :: "jschar \<Rightarrow> jschar" where
  "ascii_upper c = (if 97 \<le> c \<and> c \<le> 122 then c - 32 else c)"

fun is_prefix :: "jsstring \<Rightarrow> jsstring \<Rightarrow> bool" where
  "is_prefix [] s = True"
| "is_prefix (p # ps) [] = False"
| "is_prefix (p # ps) (c # cs) = (p = c \<and> is_prefix ps cs)"

fun contains :: "jsstring \<Rightarrow> jsstring \<Rightarrow> bool" where
  "contains p [] = (p = [])"
| "contains p (c # cs) = (is_prefix p (c # cs) \<or> contains p cs)"

definition isBold :: "jsstring option \<Rightarrow> bool" where
  \<comment> \<open>\<^verbatim>\<open>fontName && /bold|heavy|black/i.test(fontName)\<close>; without the \<^verbatim>\<open>u\<close> flag only
      ASCII letters match the letters of the pattern\<close>
  "isBold f =
     (case f of None \<Rightarrow> False
      | Some n \<Rightarrow> contains (js ''BOLD'') (map ascii_upper n)
                 \<or> contains (js ''HEAVY'') (map ascii_upper n)
                 \<or> contains (js ''BLACK'') (map ascii_upper n))"

definition isLikelyHeading :: "jsstring \<Rightarrow> real \<Rightarrow> jsstring option \<Rightarrow> bool" where
  \<comment> \<open>\<^verbatim>\<open>split(' ').length\<close> is the number of spaces plus one\<close>
  "isLikelyHeading t x f =
     (let trimmedText = trim t in
      \<not> isListItem trimmedText
      \<and> length trimmedText > 2
      \<and> length trimmedText < 100
      \<and> length (filter (\<lambda>c. c = 32) trimmedText) + 1 < 15
      \<and> \<not> (endsWith 46 trimmedText \<or> endsWith 33 trimmedText \<or> endsWith 63 trimmedText)
      \<and> (isBold f \<or> x < 80))"

definition pushPdfHeading :: "real \<Rightarrow> jsstring \<Rightarrow> pdf_heading list \<Rightarrow> pdf_heading list" where
  \<comment> \<open>pop every open heading whose height is \<^verbatim>\<open><= height\<close>, then push\<close>
  "pushPdfHeading h t path =
     popWhile (\<lambda>e. h_height e \<le> h) path @ [\<lparr>h_height = h, h_text = t\<rparr>]"

definition imageDose :: "jsstring \<Rightarrow> jsstring" where
  "imageDose url = js ''![Imagem do PDF]('' @ url @ js '')''"

definition isNewBlock :: "(real \<times> real) option \<Rightarrow> real \<Rightarrow> real \<Rightarrow> bool" where
  \<comment> \<open>the first line after the start of the page or an image, or a vertical gap of more
      than 0.8 line heights\<close>
  "isNewBlock prev y h =
     (case prev of None \<Rightarrow> True
      | Some (ly, lh) \<Rightarrow> (ly - lh) - y > h * 0.8)"

definition pdf_element :: "page_state \<Rightarrow> PageElement \<Rightarrow> page_state" where
  \<comment> \<open>the body of \<^verbatim>\<open>for (const element of pageElements)\<close>\<close>
  "pdf_element st el =
     (case el of
        TextEl t x y h f \<Rightarrow>
          (let newBlock = isNewBlock (lastLine st) y h
           in if isLikelyHeading t x f \<and> newBlock then
                (let st' = finalizeBlock st in
                 st'\<lparr>pdf_headingPath := pushPdfHeading h (trim t) (pdf_headingPath st'),
                     lastLine := Some (y, h)\<rparr>)
              else
                (let st' = (if newBlock then finalizeBlock st else st) in
                 st'\<lparr>currentBlockLines := currentBlockLines st' @ [t],
                     lastLine := Some (y, h)\<rparr>))
      | ImageEl url y w h \<Rightarrow>
          (let st' = finalizeBlock st in
           st'\<lparr>pdf_doses := pdf_doses st'
                  @ [prefixed (map h_text (pdf_headingPath st')) (imageDose url)],
               lastLine := None\<rparr>))"

definition page_init :: "jsstring list \<Rightarrow> page_state" where
  \<comment> \<open>the variables declared at step 4, inside the loop over the pages; \<^verbatim>\<open>doses\<close> is
      declared outside of it\<close>
  "page_init ds = \<lparr>pdf_doses = ds, pdf_headingPath = [], currentBlockLines = [], lastLine = None\<rparr>"

definition elementsToDoses :: "jsstring list \<Rightarrow> PageElement list \<Rightarrow> jsstring list" where
  "elementsToDoses ds els = pdf_doses (finalizeBlock (foldl pdf_element (page_init ds) els))"

datatype page =
    PageThrows \<comment> \<open>loading the page, its text content or its operator list raises\<close>
  | Page "text_item list" "pdf_op list" "jsstring \<Rightarrow> objs_result"

definition processPage :: "dom \<Rightarrow> nat \<Rightarrow> page \<Rightarrow> jsstring list \<times> jsstring list \<Rightarrow> jsstring list \<times> jsstring list" where
  \<comment> \<open>the body of the loop over the pages, on \<^verbatim>\<open>doses\<close> and \<^verbatim>\<open>warnings\<close>\<close>
  "processPage d pageNum pg acc =
     (case pg of
        PageThrows \<Rightarrow> (fst acc, snd acc @ [pageFailedWarning pageNum])
      | Page items ops objs \<Rightarrow>
          (let ost = run_ops d objs pageNum ops
                       \<lparr>matrixStack = [], currentMatrix = identityMatrix,
                        pageElements = textLines items, warnings = snd acc\<rparr>;
               sorted = sort_key (\<lambda>e. - el_y e) (pageElements ost)
           in (elementsToDoses (fst acc) sorted, warnings ost)))"

fun pdf_pages :: "dom \<Rightarrow> nat \<Rightarrow> page list \<Rightarrow> jsstring list \<times> jsstring list \<Rightarrow> jsstring list \<times> jsstring list" where
  \<comment> \<open>\<^verbatim>\<open>for (pageNum = ...; pageNum <= numPages; pageNum++)\<close>\<close>
  "pdf_pages d pageNum [] acc = acc"
| "pdf_pages d pageNum (pg # pgs) acc = pdf_pages d (Suc pageNum) pgs (processPage d pageNum pg acc)"

definition extractTextFromPdf :: "dom \<Rightarrow> page list \<Rightarrow> jsstring list \<times> jsstring list" where
  "extractTextFromPdf d pgs = pdf_pages d 1 pgs ([], [])"

section \<open>The DOCX adapter\<close>

datatype element =
  Element (tagName: jsstring) (textContent: jsstring) (children: "element list") (src: jsstring)

datatype mammoth_result =
    ConvertThrows jsstring \<comment> \<open>the message of the error raised\<close>
  | Converted "(jsstring \<times> jsstring) list" "element list" jsstring
      \<comment> \<open>the messages (type and text), the children of the body and the text of the body\<close>

record docx_state =
  docx_doses :: "jsstring list"
  docx_headingPath :: "heading list"

definition toUpperCase :: "jsstring \<Rightarrow> jsstring" where
  \<comment> \<open>on tag names, which the HTML parser gives in ASCII\<close>
  "toUpperCase s = map ascii_upper s"

definition levelMatch :: "jsstring \<Rightarrow> nat option" where
  \<comment> \<open>\<^verbatim>\<open>tagName.match(/^H([1-6])$/)\<close> with \<^verbatim>\<open>parseInt\<close> of the group\<close>
  "levelMatch tag =
     (case tag of
        [h, n] \<Rightarrow> if h = 72 \<and> 49 \<le> n \<and> n \<le> 54 then Some (unat n - 48) else None
      | _ \<Rightarrow> None)"

definition createDose :: "docx_state \<Rightarrow> jsstring \<Rightarrow> docx_state" where
  "createDose st content =
     (if content = [] then st
      else st\<lparr>docx_doses := docx_doses st
                 @ [prefixed (map htext (docx_headingPath st)) content]\<rparr>)"

definition listItems :: "jsstring \<Rightarrow> element \<Rightarrow> jsstring list" where
  \<comment> \<open>the index counts every \<^verbatim>\<open>LI\<close> child, also one without text\<close>
  "listItems tag el =
     (let lis = filter (\<lambda>child. toUpperCase (tagName child) = js ''LI'') (children el) in
      concat (map (\<lambda>(index, li).
                    let liContent = trim (textContent li) in
                    if liContent = [] then []
                    else [(if tag = js ''UL'' then js ''* '' else show_nat (index + 1) @ js ''. '')
                          @ liContent])
                (zip [0 ..< length lis] lis)))"

definition docx_node :: "docx_state \<Rightarrow> element \<Rightarrow> docx_state" where
  \<comment> \<open>the body of \<^verbatim>\<open>for (const node of Array.from(body.children))\<close>\<close>
  "docx_node st el =
     (let tag = toUpperCase (tagName el) in
      case levelMatch tag of
        Some lv \<Rightarrow>
          (let t = trim (textContent el) in
           if t \<noteq> [] then st\<lparr>docx_headingPath := pushHeading lv t (docx_headingPath st)\<rparr>
           else st)
      | None \<Rightarrow>
          if tag = js ''P'' then createDose st (trim (textContent el))
          else if tag = js ''UL'' \<or> tag = js ''OL'' then
            (if listItems tag el \<noteq> [] then createDose st (join [NL] (listItems tag el)) else st)
          else if tag = js ''IMG'' then
            (if src el \<noteq> [] \<and> is_prefix (js ''data:image'') (src el)
             then createDose st (js ''![Imagem do DOCX]('' @ src el @ js '')'')
             else st)
          else createDose st (trim (textContent el)))"

definition docx_init :: docx_state where
  "docx_init = \<lparr>docx_doses = [], docx_headingPath = []\<rparr>"

fun split_nlnl :: "jsstring \<Rightarrow> jsstring \<Rightarrow> jsstring list" where
  \<comment> \<open>\<^verbatim>\<open>s.split('\n\n')\<close>; the first argument is the piece collected so far\<close>
  "split_nlnl cur [] = [cur]"
| "split_nlnl cur [a] = [cur @ [a]]"
| "split_nlnl cur (a # b # r) =
     (if a = NL \<and> b = NL then cur # split_nlnl [] r else split_nlnl (cur @ [a]) (b # r))"

definition noStructureWarning :: jsstring where
  "noStructureWarning =
     accented ''N~o foi poss^vel identificar uma estrutura clara (t^tulos, par`grafos). O texto foi dividido por par`grafos.''"

definition noTextWarning :: jsstring where
  "noTextWarning = js ''Nenhum texto foi encontrado no documento.''"

definition docxFailedWarning :: "jsstring \<Rightarrow> jsstring" where
  "docxFailedWarning msg =
     accented ''Falha ao processar o arquivo DOCX. Pode estar corrompido ou em um formato n~o suportado. Erro: ''
     @ msg"

definition extractTextFromDocx :: "mammoth_result \<Rightarrow> jsstring list \<times> jsstring list" where
  "extractTextFromDocx r =
     (case r of
        ConvertThrows msg \<Rightarrow> ([], [docxFailedWarning msg])
      | Converted messages body bodyText \<Rightarrow>
          (let ws = map snd (filter (\<lambda>msg. fst msg = js ''warning'') messages);
               ds = docx_doses (foldl docx_node docx_init body)
           in if length ds = 0 \<and> length ws = 0 then
                (let rawTextDoses = filter (\<lambda>p. trim p \<noteq> []) (split_nlnl [] bodyText) in
                 if trim bodyText \<noteq> [] \<and> length rawTextDoses > 0
                 then (rawTextDoses, ws @ [noStructureWarning])
                 else (ds, ws @ [noTextWarning]))
              else (ds, ws)))"

section \<open>The heading-stack invariant\<close>

definition md_stack_ok :: "heading list \<Rightarrow> bool" where
  \<comment> \<open>level numbers grow strictly from the bottom of the stack to its top\<close>
  "md_stack_ok path = sorted_wrt (\<lambda>a b. level a < level b) path"

definition pdf_stack_ok :: "pdf_heading list \<Rightarrow> bool" where
  \<comment> \<open>glyph heights shrink strictly from the bottom of the stack to its top\<close>
  "pdf_stack_ok path = sorted_wrt (\<lambda>a b. h_height a > h_height b) path"

section \<open>Example inputs\<close>

definition econ_input :: jsstring where
  "econ_input =
     js ''# Econ'' @ [NL] @ js ''## Supply'' @ [NL] @ js ''Prices rise when supply falls.''
     @ [NL, NL] @ js ''## Demand'' @ [NL] @ js ''* more buyers'' @ [NL] @ js ''* less buyers''"

definition example_dom :: dom where
  "example_dom = \<lparr>canvas = (\<lambda>w h. Context), toDataURL = (\<lambda>w h d. js ''data:image/png;base64,AA'')\<rparr>"

definition no_objs :: "jsstring \<Rightarrow> objs_result" where
  "no_objs imgRef = ObjMissing"

definition line_item :: "string \<Rightarrow> real \<Rightarrow> real \<Rightarrow> real \<Rightarrow> text_item" where
  "line_item s x y h = \<lparr>str = js s, tx = x, ty = y, item_height = h, fontName = None\<rparr>"

definition intro_page :: page where
  \<comment> \<open>a heading at the left margin and a paragraph under it\<close>
  "intro_page = Page [line_item ''Intro'' 50 700 20, line_item ''First para.'' 100 650 10] [] no_objs"

definition body_page :: page where
  \<comment> \<open>a page that starts with a paragraph\<close>
  "body_page = Page [line_item ''Body text.'' 100 700 10] [] no_objs"

definition two_byte_raster :: raster where
  \<comment> \<open>2 x 2 pixels at two bytes per pixel\<close>
  "two_byte_raster = \<lparr>img_width = 2, img_height = 2, img_data = [0, 1, 2, 3, 4, 5, 6, 7],
                   colorspace = Some (js ''DeviceN'')\<rparr>"

definition two_byte_objs :: "jsstring \<Rightarrow> objs_result" where
  "two_byte_objs imgRef = ObjImage two_byte_raster"

definition ops_init :: op_state where
  "ops_init = \<lparr>matrixStack = [], currentMatrix = (2, 0, 0, 2, 5, 7), pageElements = [], warnings = []\<rparr>"

definition no_context_dom :: dom where
  \<comment> \<open>a browser whose \<^verbatim>\<open>getContext('2d')\<close> returns null\<close>
  "no_context_dom = \<lparr>canvas = (\<lambda>w h. NoContext), toDataURL = (\<lambda>w h d. [])\<rparr>"

section \<open>Facts about strings\<close>

lemma trim_eq_Nil_iff: "trim s = [] \<longleftrightarrow> (\<forall>c\<in>set s. is_ws c)"
proof
  assume "trim s = []"
  then have a: "\<forall>c\<in>set (dropWhile is_ws s). is_ws c"
    by (simp add: trim_def dropWhile_eq_Nil_conv)
  have "dropWhile is_ws s = []"
  proof (rule ccontr)
    assume n: "dropWhile is_ws s \<noteq> []"
    then have "\<not> is_ws (hd (dropWhile is_ws s))" by (rule hd_dropWhile)
    with a n show False by simp
  qed
  then show "\<forall>c\<in>set s. is_ws c"
    by (simp add: dropWhile_eq_Nil_conv)
next
  assume "\<forall>c\<in>set s. is_ws c"
  then have e: "dropWhile is_ws s = []"
    by (induction s) auto
  show "trim s = []"
    unfolding trim_def e by simp
qed

lemma split_nl_not_Nil: "split_nl s \<noteq> []"
  by (induction s) (auto split: list.splits)

lemma indentedDoses_not_Nil: "ls \<noteq> [] \<Longrightarrow> indentedDoses ls = Some ds \<Longrightarrow> ds \<noteq> []"
  by (auto simp: indentedDoses_def Let_def split: list.splits if_splits)

section \<open>The structured-text parser: results\<close>

text \<open>
  Claim C2. For every input whose trimmed form is not empty, \<^const>\<open>parseStructuredText\<close>
  returns at least one dose. Where the input has no indented line and the pass over headings
  and content produces no dose, the result is the trimmed input as its single dose.
\<close>

theorem parse_never_empty:
  assumes "trim txt \<noteq> []"
  shows "parseStructuredText txt \<noteq> []
    \<and> (\<not> list_ex (\<lambda>line. getIndentation line > 0) (split_nl (trim txt))
         \<and> doses (md_pass (split_nl (trim txt))) = []
       \<longrightarrow> parseStructuredText txt = [trim txt])"
proof -
  let ?ls = "split_nl (trim txt)"
  have "ds \<noteq> []" if "indentedDoses ?ls = Some ds" for ds
    using that split_nl_not_Nil indentedDoses_not_Nil by blast
  then have "parseStructuredText txt \<noteq> []"
    using assms by (auto simp: parseStructuredText_def Let_def split: option.splits)
  moreover have "parseStructuredText txt = [trim txt]"
    if "\<not> list_ex (\<lambda>line. getIndentation line > 0) ?ls" "doses (md_pass ?ls) = []"
    using that assms by (simp add: parseStructuredText_def Let_def)
  ultimately show ?thesis by blast
qed

theorem parse_never_empty_witness:
  "trim (js ''# Title'') \<noteq> []
   \<and> \<not> list_ex (\<lambda>line. getIndentation line > 0) (split_nl (trim (js ''# Title'')))
   \<and> doses (md_pass (split_nl (trim (js ''# Title'')))) = []
   \<and> parseStructuredText (js ''# Title'') = [trim (js ''# Title'')]
   \<and> parseStructuredText (js ''# Title'') \<noteq> []"
proof -
  have h: "trim (js ''# Title'') \<noteq> []" by code_simp
  have i: "\<not> list_ex (\<lambda>line. getIndentation line > 0) (split_nl (trim (js ''# Title'')))"
    by code_simp
  have d: "doses (md_pass (split_nl (trim (js ''# Title'')))) = []" by code_simp
  from parse_never_empty [OF h] i d h show ?thesis by blast
qed

text \<open>
  Claim C8. For an input that is empty or made of white space only,
  \<^const>\<open>parseStructuredText\<close> returns the empty list.
\<close>

theorem parse_blank_input:
  assumes "\<forall>c\<in>set txt. is_ws c"
  shows "parseStructuredText txt = []"
  using assms by (simp add: parseStructuredText_def trim_eq_Nil_iff [THEN iffD2])

theorem parse_blank_input_witness:
  "list_all is_ws (js '' '' @ [9, NL] @ js '' '')
   \<and> parseStructuredText (js '' '' @ [9, NL] @ js '' '') = []
   \<and> parseStructuredText [] = []"
proof -
  have h: "\<forall>c\<in>set (js '' '' @ [9, NL] @ js '' ''). is_ws c"
    by (simp add: js_def is_ws_def NL_def)
  have e: "\<forall>c\<in>set ([] :: jsstring). is_ws c" by simp
  from parse_blank_input [OF h] parse_blank_input [OF e] h show ?thesis
    by (simp add: list_all_iff)
qed

text \<open>
  Claim C4, as the code has it. On the Markdown example the parser returns three doses: the
  paragraph under \<^verbatim>\<open>Econ > Supply\<close>, and one dose for each of the two bullet lines
  under \<^verbatim>\<open>Econ > Demand\<close>, since a block all of whose lines are list items is split
  into one dose per line.
\<close>

theorem econ_three_doses:
  "parseStructuredText econ_input =
     [js ''Econ > Supply'' @ [NL, NL] @ js ''Prices rise when supply falls.'',
      js ''Econ > Demand'' @ [NL, NL] @ js ''* more buyers'',
      js ''Econ > Demand'' @ [NL, NL] @ js ''* less buyers'']"
  by code_simp

text \<open>
  The two doses of the claim as it is written, with both bullet lines in one dose, are not
  what the parser returns.
\<close>

theorem econ_two_doses_counterexample:
  "parseStructuredText econ_input \<noteq>
     [js ''Econ > Supply'' @ [NL, NL] @ js ''Prices rise when supply falls.'',
      js ''Econ > Demand'' @ [NL, NL] @ js ''* more buyers'' @ [NL] @ js ''* less buyers'']"
  by code_simp

section \<open>The heading stack: results\<close>

lemma popWhile_take: "\<exists>k. popWhile P st = take k st"
proof (induction P st rule: popWhile.induct)
  case (1 P st)
  show ?case
  proof (cases "st \<noteq> [] \<and> P (last st)")
    case True
    with 1 obtain k where "popWhile P (butlast st) = take k (butlast st)" by blast
    with True have "popWhile P st = take (min k (length st - 1)) st"
      by (subst popWhile.simps) (simp add: butlast_conv_take min.commute)
    then show ?thesis by blast
  next
    case False
    then have "popWhile P st = take (length st) st"
      by (subst popWhile.simps) auto
    then show ?thesis by blast
  qed
qed

lemma popWhile_sorted: "sorted_wrt R st \<Longrightarrow> sorted_wrt R (popWhile P st)"
proof -
  assume a: "sorted_wrt R st"
  obtain k where "popWhile P st = take k st" using popWhile_take by blast
  with a show ?thesis by (simp add: sorted_wrt_take)
qed

lemma popWhile_top: "popWhile P st \<noteq> [] \<Longrightarrow> \<not> P (last (popWhile P st))"
proof (induction P st rule: popWhile.induct)
  case (1 P st)
  show ?case
  proof (cases "st \<noteq> [] \<and> P (last st)")
    case True
    then have e: "popWhile P st = popWhile P (butlast st)" by (subst popWhile.simps) simp
    with 1 True show ?thesis by simp
  next
    case False
    then have e: "popWhile P st = st" by (subst popWhile.simps) auto
    with 1 False show ?thesis by auto
  qed
qed

lemma sorted_wrt_last: "sorted_wrt R xs \<Longrightarrow> x \<in> set (butlast xs) \<Longrightarrow> R x (last xs)"
proof (induction xs rule: rev_induct)
  case Nil then show ?case by simp
next
  case (snoc y ys) then show ?case by (simp add: sorted_wrt_append)
qed

lemma in_set_butlast_or_last: "x \<in> set xs \<Longrightarrow> x \<noteq> last xs \<Longrightarrow> x \<in> set (butlast xs)"
  by (induction xs) (auto split: if_splits)

lemma popWhile_below:
  assumes s: "sorted_wrt R st" and tr: "\<And>a b. R a b \<Longrightarrow> \<not> P b \<Longrightarrow> \<not> P a"
    and x: "x \<in> set (popWhile P st)"
  shows "\<not> P x"
proof -
  let ?r = "popWhile P st"
  have ne: "?r \<noteq> []" using x by auto
  have top: "\<not> P (last ?r)" using popWhile_top[OF ne] .
  have sr: "sorted_wrt R ?r" using s by (rule popWhile_sorted)
  show ?thesis
  proof (cases "x = last ?r")
    case True with top show ?thesis by simp
  next
    case False
    with x have "x \<in> set (butlast ?r)"
      by (rule in_set_butlast_or_last)
    then have rx: "R x (last ?r)" by (rule sorted_wrt_last [OF sr])
    show ?thesis by (rule tr [OF rx top])
  qed
qed

lemma pushHeading_ok: "md_stack_ok path \<Longrightarrow> md_stack_ok (pushHeading lv t path)"
  unfolding md_stack_ok_def pushHeading_def
  by (auto simp: sorted_wrt_append popWhile_sorted dest: popWhile_below[where P="\<lambda>h. lv \<le> level h" and R="\<lambda>a b. level a < level b"])

lemma pushHeading_below: "md_stack_ok path \<Longrightarrow> e \<in> set (butlast (pushHeading lv t path)) \<Longrightarrow> level e < lv"
  unfolding md_stack_ok_def pushHeading_def
  by (auto dest: popWhile_below[where P="\<lambda>h. lv \<le> level h" and R="\<lambda>a b. level a < level b"])

lemma pushPdfHeading_ok: "pdf_stack_ok path \<Longrightarrow> pdf_stack_ok (pushPdfHeading h t path)"
  unfolding pdf_stack_ok_def pushPdfHeading_def
  by (auto simp: sorted_wrt_append popWhile_sorted dest: popWhile_below[where P="\<lambda>e. h_height e \<le> h" and R="\<lambda>a b. h_height a > h_height b"])

lemma pushPdfHeading_below: "pdf_stack_ok path \<Longrightarrow> e \<in> set (butlast (pushPdfHeading h t path)) \<Longrightarrow> h_height e > h"
  unfolding pdf_stack_ok_def pushPdfHeading_def
  by (auto dest: popWhile_below[where P="\<lambda>e. h_height e \<le> h" and R="\<lambda>a b. h_height a > h_height b"])

lemma headingPath_processContentBlock: "headingPath (processContentBlock st) = headingPath st"
  by (simp add: processContentBlock_def Let_def)

lemma md_line_ok: "md_stack_ok (headingPath st) \<Longrightarrow> md_stack_ok (headingPath (md_line st line))"
  by (simp add: md_line_def Let_def headingPath_processContentBlock pushHeading_ok)

lemma md_fold_ok: "md_stack_ok (headingPath st) \<Longrightarrow> md_stack_ok (headingPath (foldl md_line st ls))"
  by (induction ls arbitrary: st) (simp_all add: md_line_ok)

lemma headingPath_finalizeBlock: "pdf_headingPath (finalizeBlock st) = pdf_headingPath st"
  by (simp add: finalizeBlock_def Let_def)

lemma pdf_element_ok: "pdf_stack_ok (pdf_headingPath st) \<Longrightarrow> pdf_stack_ok (pdf_headingPath (pdf_element st el))"
  by (cases el) (simp_all add: pdf_element_def Let_def headingPath_finalizeBlock pushPdfHeading_ok)

lemma pdf_fold_ok: "pdf_stack_ok (pdf_headingPath st) \<Longrightarrow> pdf_stack_ok (pdf_headingPath (foldl pdf_element st els))"
  by (induction els arbitrary: st) (simp_all add: pdf_element_ok)

lemma docx_node_ok: "md_stack_ok (docx_headingPath st) \<Longrightarrow> md_stack_ok (docx_headingPath (docx_node st el))"
  by (simp add: docx_node_def Let_def createDose_def pushHeading_ok split: option.splits)

lemma docx_fold_ok: "md_stack_ok (docx_headingPath st) \<Longrightarrow> md_stack_ok (docx_headingPath (foldl docx_node st els))"
  by (induction els arbitrary: st) (simp_all add: docx_node_ok)



lemma pushHeading_last: "last (pushHeading lv t path) = \<lparr>level = lv, htext = t\<rparr>"
  by (simp add: pushHeading_def)

lemma pushPdfHeading_last: "last (pushPdfHeading h t path) = \<lparr>h_height = h, h_text = t\<rparr>"
  by (simp add: pushPdfHeading_def)

lemma md_reach_ok: "md_stack_ok (headingPath (foldl md_line md_init ls))"
  by (rule md_fold_ok) (simp add: md_init_def md_stack_ok_def)

lemma pdf_reach_ok: "pdf_stack_ok (pdf_headingPath (foldl pdf_element (page_init ds) els))"
  by (rule pdf_fold_ok) (simp add: page_init_def pdf_stack_ok_def)

lemma docx_reach_ok: "md_stack_ok (docx_headingPath (foldl docx_node docx_init body))"
  by (rule docx_fold_ok) (simp add: docx_init_def md_stack_ok_def)

lemma md_heading_step:
  assumes "getHeadingLevel line > 0"
  shows "headingPath (md_line st line)
         = pushHeading (getHeadingLevel line) (headingText line) (headingPath st)"
  using assms by (simp add: md_line_def Let_def headingPath_processContentBlock)

lemma pdf_heading_step:
  assumes "isLikelyHeading t x f" "isNewBlock (lastLine st) y h"
  shows "pdf_headingPath (pdf_element st (TextEl t x y h f))
         = pushPdfHeading h (trim t) (pdf_headingPath st)"
  using assms by (simp add: pdf_element_def Let_def headingPath_finalizeBlock)

lemma docx_heading_step:
  assumes "levelMatch (toUpperCase (tagName el)) = Some lv" "trim (textContent el) \<noteq> []"
  shows "docx_headingPath (docx_node st el)
         = pushHeading lv (trim (textContent el)) (docx_headingPath st)"
  using assms by (simp add: docx_node_def Let_def)


text \<open>
  Claim C3. In the three pipelines that keep a heading stack (the PDF extractor, the
  Markdown pass of the parser and the DOCX adapter), the stack reached after any sequence of
  inputs is strictly ordered by nesting depth from its bottom to its top: glyph heights
  shrink strictly in the PDF extractor, level numbers grow strictly in the other two. Every
  prefix of the stack is ordered as well, which covers the states inside the loop that pops.
  After a heading is processed, the heading is on top and every entry left below it is
  strictly shallower: higher in the PDF extractor, of a smaller level number in the others.
\<close>

theorem heading_stack_invariant:
  fixes ds :: "jsstring list" and els :: "PageElement list" and ls :: "jsstring list"
    and body :: "element list"
  defines "pst \<equiv> foldl pdf_element (page_init ds) els"
    and "mst \<equiv> foldl md_line md_init ls"
    and "dst \<equiv> foldl docx_node docx_init body"
  shows "pdf_stack_ok (take k (pdf_headingPath pst))
    \<and> (isLikelyHeading t x f \<and> isNewBlock (lastLine pst) y h \<longrightarrow>
         h_height (last (pdf_headingPath (pdf_element pst (TextEl t x y h f)))) = h
         \<and> (\<forall>e \<in> set (butlast (pdf_headingPath (pdf_element pst (TextEl t x y h f)))).
               h_height e > h))
    \<and> md_stack_ok (take k (headingPath mst))
    \<and> (getHeadingLevel line > 0 \<longrightarrow>
         level (last (headingPath (md_line mst line))) = getHeadingLevel line
         \<and> (\<forall>e \<in> set (butlast (headingPath (md_line mst line))).
               level e < getHeadingLevel line))
    \<and> md_stack_ok (take k (docx_headingPath dst))
    \<and> (levelMatch (toUpperCase (tagName el)) = Some lv \<and> trim (textContent el) \<noteq> [] \<longrightarrow>
         level (last (docx_headingPath (docx_node dst el))) = lv
         \<and> (\<forall>e \<in> set (butlast (docx_headingPath (docx_node dst el))). level e < lv))"
proof -
  have p: "pdf_stack_ok (pdf_headingPath pst)"
    unfolding pst_def by (rule pdf_reach_ok)
  have m: "md_stack_ok (headingPath mst)"
    unfolding mst_def by (rule md_reach_ok)
  have d: "md_stack_ok (docx_headingPath dst)"
    unfolding dst_def by (rule docx_reach_ok)
  have p1: "pdf_stack_ok (take k (pdf_headingPath pst))"
    using p by (simp add: pdf_stack_ok_def sorted_wrt_take)
  have m1: "md_stack_ok (take k (headingPath mst))"
    using m by (simp add: md_stack_ok_def sorted_wrt_take)
  have d1: "md_stack_ok (take k (docx_headingPath dst))"
    using d by (simp add: md_stack_ok_def sorted_wrt_take)
  have p2: "h_height (last (pdf_headingPath (pdf_element pst (TextEl t x y h f)))) = h
      \<and> (\<forall>e \<in> set (butlast (pdf_headingPath (pdf_element pst (TextEl t x y h f)))).
            h_height e > h)"
    if "isLikelyHeading t x f" "isNewBlock (lastLine pst) y h"
    unfolding pdf_heading_step [OF that] pushPdfHeading_last
    using pushPdfHeading_below [OF p, of _ h "trim t"] by simp
  have m2: "level (last (headingPath (md_line mst line))) = getHeadingLevel line
      \<and> (\<forall>e \<in> set (butlast (headingPath (md_line mst line))). level e < getHeadingLevel line)"
    if "getHeadingLevel line > 0"
    unfolding md_heading_step [OF that] pushHeading_last
    using pushHeading_below [OF m, of _ "getHeadingLevel line" "headingText line"] by simp
  have d2: "level (last (docx_headingPath (docx_node dst el))) = lv
      \<and> (\<forall>e \<in> set (butlast (docx_headingPath (docx_node dst el))). level e < lv)"
    if "levelMatch (toUpperCase (tagName el)) = Some lv" "trim (textContent el) \<noteq> []"
    unfolding docx_heading_step [OF that] pushHeading_last
    using pushHeading_below [OF d, of _ lv "trim (textContent el)"] by simp
  show ?thesis
    using p1 p2 m1 m2 d1 d2 by (intro conjI impI) simp_all
qed


theorem heading_stack_invariant_witness:
  "pdf_stack_ok (take 2 (pdf_headingPath (foldl pdf_element (page_init [])
       [TextEl (js ''Chapter'') 50 700 20 None, TextEl (js ''Section'') 50 650 14 None])))
   \<and> isLikelyHeading (js ''Other'') 50 None
   \<and> isNewBlock (lastLine (foldl pdf_element (page_init [])
         [TextEl (js ''Chapter'') 50 700 20 None, TextEl (js ''Section'') 50 650 14 None])) 600 14
   \<and> map h_height (pdf_headingPath (pdf_element (foldl pdf_element (page_init [])
         [TextEl (js ''Chapter'') 50 700 20 None, TextEl (js ''Section'') 50 650 14 None])
         (TextEl (js ''Other'') 50 600 14 None))) = [20, 14]
   \<and> md_stack_ok (take 3 (headingPath (foldl md_line md_init
         [js ''# A'', js ''## B'', js ''### C''])))
   \<and> getHeadingLevel (js ''## D'') = 2
   \<and> map level (headingPath (md_line (foldl md_line md_init
         [js ''# A'', js ''## B'', js ''### C'']) (js ''## D''))) = [1, 2]
   \<and> md_stack_ok (take 2 (docx_headingPath (foldl docx_node docx_init
         [Element (js ''h1'') (js ''A'') [] [], Element (js ''h2'') (js ''B'') [] []])))
   \<and> levelMatch (toUpperCase (tagName (Element (js ''h2'') (js ''C'') [] []))) = Some 2
   \<and> map level (docx_headingPath (docx_node (foldl docx_node docx_init
         [Element (js ''h1'') (js ''A'') [] [], Element (js ''h2'') (js ''B'') [] []])
         (Element (js ''h2'') (js ''C'') [] []))) = [1, 2]"
proof -
  have a: "isLikelyHeading (js ''Other'') 50 None" by code_simp
  have b: "isNewBlock (lastLine (foldl pdf_element (page_init [])
         [TextEl (js ''Chapter'') 50 700 20 None, TextEl (js ''Section'') 50 650 14 None])) 600 14"
    by code_simp
  have c: "map h_height (pdf_headingPath (pdf_element (foldl pdf_element (page_init [])
         [TextEl (js ''Chapter'') 50 700 20 None, TextEl (js ''Section'') 50 650 14 None])
         (TextEl (js ''Other'') 50 600 14 None))) = [20, 14]"
    by code_simp
  have d: "getHeadingLevel (js ''## D'') = 2" by code_simp
  have e: "map level (headingPath (md_line (foldl md_line md_init
         [js ''# A'', js ''## B'', js ''### C'']) (js ''## D''))) = [1, 2]"
    by code_simp
  have f: "levelMatch (toUpperCase (tagName (Element (js ''h2'') (js ''C'') [] []))) = Some 2"
    by code_simp
  have g: "map level (docx_headingPath (docx_node (foldl docx_node docx_init
         [Element (js ''h1'') (js ''A'') [] [], Element (js ''h2'') (js ''B'') [] []])
         (Element (js ''h2'') (js ''C'') [] []))) = [1, 2]"
    by code_simp
  note inv = heading_stack_invariant [of 2 "[]"
      "[TextEl (js ''Chapter'') 50 700 20 None, TextEl (js ''Section'') 50 650 14 None]"
      "js ''Other''" 50 None 600 14]
    heading_stack_invariant [of 3 _ _ _ _ _ _ _ "[js ''# A'', js ''## B'', js ''### C'']"]
    heading_stack_invariant [of 2 _ _ _ _ _ _ _ _ _
      "[Element (js ''h1'') (js ''A'') [] [], Element (js ''h2'') (js ''B'') [] []]"]
  from inv a b c d e f g show ?thesis by blast
qed

section \<open>The PDF extractor: results\<close>

lemma dropWhile_id: "xs \<noteq> [] \<Longrightarrow> \<not> P (hd xs) \<Longrightarrow> dropWhile P xs = xs"
  by (cases xs) simp_all

lemma trim_last: "trim s \<noteq> [] \<Longrightarrow> \<not> is_ws (last (trim s))"
proof -
  assume n: "trim s \<noteq> []"
  let ?e = "dropWhile is_ws (rev (dropWhile is_ws s))"
  from n have ne: "?e \<noteq> []" by (simp add: trim_def)
  then have "\<not> is_ws (hd ?e)" by (rule hd_dropWhile)
  moreover have "last (trim s) = hd ?e"
    unfolding trim_def using ne by (simp add: last_rev)
  ultimately show ?thesis by simp
qed

lemma trim_hd: "trim s \<noteq> [] \<Longrightarrow> \<not> is_ws (hd (trim s))"
proof -
  assume n: "trim s \<noteq> []"
  let ?d = "dropWhile is_ws s"
  let ?e = "dropWhile is_ws (rev ?d)"
  from n have ne: "?e \<noteq> []" by (simp add: trim_def)
  have dn: "?d \<noteq> []"
  proof
    assume e: "?d = []"
    have "?e = []" unfolding e by simp
    with ne show False by simp
  qed
  then have hd: "\<not> is_ws (hd ?d)" by (rule hd_dropWhile)
  have "rev ?d = takeWhile is_ws (rev ?d) @ ?e" by simp
  then have "?d = rev ?e @ rev (takeWhile is_ws (rev ?d))"
    by (metis rev_append rev_rev_ident)
  then have "hd ?d = hd (rev ?e)" using ne by (metis hd_append2 rev_is_Nil_conv)
  with hd show ?thesis by (simp add: trim_def)
qed

lemma trim_idem: "trim (trim s) = trim s"
proof (cases "trim s = []")
  case True
  have "trim [] = []" by (simp add: trim_def)
  then show ?thesis unfolding True .
next
  case False
  have a: "dropWhile is_ws (trim s) = trim s"
    using False trim_hd by (intro dropWhile_id) auto
  have "hd (rev (trim s)) = last (trim s)" using False by (simp add: hd_rev)
  then have b: "dropWhile is_ws (rev (trim s)) = rev (trim s)"
    using False trim_last by (intro dropWhile_id) auto
  show ?thesis
    unfolding trim_def [of "trim s"] a b by simp
qed

lemma fold_two_lines:
  "foldl foldLine [] [a, b] =
       (if endsWith 45 (trim a) then butlast (trim a) @ trim b
        else if trim a = [] then trim b
        else trim a @ [32] @ trim b)"
proof -
  have e: "trim [] = []" by (simp add: trim_def)
  have f: "foldLine [] a = trim a"
    by (simp add: foldLine_def Let_def e endsWith_def)
  show ?thesis
    by (simp add: f) (simp add: foldLine_def Let_def trim_idem e endsWith_def)
qed

text \<open>
  Claim C7. A prose block is folded into one paragraph, line by line: where the text
  collected so far, trimmed, ends in a hyphen, the hyphen is dropped and the trimmed next
  line follows at once; otherwise the lines are joined by one space (two lines give the
  first, trimmed, a space and the second, trimmed, unless the first is blank). The lines
  \<^verbatim>\<open>exam-\<close> and \<^verbatim>\<open>ple text\<close> of one block give \<^verbatim>\<open>example text\<close>, and that
  is the dose \<^const>\<open>finalizeBlock\<close> emits for the block.
\<close>

theorem hyphenation_repair:
  "blockText [js ''exam-'', js ''ple text''] = js ''example text''
   \<and> blockText [js ''exam-'', js ''ple text''] \<noteq> js ''exam- ple text''
   \<and> blockText [js ''exam-'', js ''ple text''] \<noteq> js ''exam-ple text''
   \<and> pdf_doses (finalizeBlock ((page_init ds)\<lparr>currentBlockLines := [js ''exam-'', js ''ple text'']\<rparr>))
       = ds @ [js ''example text'']
   \<and> foldLine acc line =
       (if endsWith 45 (trim acc) then butlast (trim acc) @ trim line
        else if acc = [] then trim line
        else acc @ [32] @ trim line)
   \<and> foldl foldLine [] [l1, l2] =
       (if endsWith 45 (trim l1) then butlast (trim l1) @ trim l2
        else if trim l1 = [] then trim l2
        else trim l1 @ [32] @ trim l2)"
proof -
  have a: "blockText [js ''exam-'', js ''ple text''] = js ''example text''" by code_simp
  have b: "js ''example text'' \<noteq> js ''exam- ple text''" by code_simp
  have c: "js ''example text'' \<noteq> js ''exam-ple text''" by code_simp
  have d: "js ''example text'' \<noteq> []" by code_simp
  have e: "prefixed [] s = s" for s by (simp add: prefixed_def breadcrumb_def)
  have f: "pdf_doses (finalizeBlock ((page_init ds)\<lparr>currentBlockLines := [js ''exam-'', js ''ple text'']\<rparr>))
       = ds @ [js ''example text'']"
    using d by (simp add: finalizeBlock_def Let_def a page_init_def e)
  have g: "foldLine acc line =
       (if endsWith 45 (trim acc) then butlast (trim acc) @ trim line
        else if acc = [] then trim line
        else acc @ [32] @ trim line)"
    by (simp add: foldLine_def Let_def)
  from a b c f g fold_two_lines [of l1 l2] show ?thesis by simp
qed

theorem hyphenation_repair_witness:
  "foldLine (js ''exam-'') (js ''ple text'') = js ''example text''
   \<and> pdf_doses (finalizeBlock
         ((page_init [])\<lparr>currentBlockLines := [js ''exam-'', js ''ple text'']\<rparr>))
       = [js ''example text'']"
proof -
  have "(if endsWith 45 (trim (js ''exam-'')) then butlast (trim (js ''exam-'')) @ trim (js ''ple text'')
         else if js ''exam-'' = [] then trim (js ''ple text'')
         else js ''exam-'' @ [32] @ trim (js ''ple text'')) = js ''example text''"
    by code_simp
  with hyphenation_repair [where ds = "[]" and acc = "js ''exam-''" and line = "js ''ple text''"]
  show ?thesis by simp
qed

text \<open>
  Claim C9. A restore operator met while the stack of transforms is empty does not fail: the
  current transform becomes the identity \<^verbatim>\<open>[1, 0, 0, 1, 0, 0]\<close>, nothing else of the
  state changes, and the operators after it are interpreted from that state.
\<close>

theorem restore_on_empty_stack:
  assumes "matrixStack st = []"
  shows "run_ops d objs pageNum (Restore # ops) st
         = run_ops d objs pageNum ops (st\<lparr>currentMatrix := (1, 0, 0, 1, 0, 0)\<rparr>)"
  using assms by (simp add: run_ops_def pdf_operator_def identityMatrix_def)

theorem restore_on_empty_stack_witness:
  "matrixStack ops_init = []
   \<and> currentMatrix (run_ops example_dom no_objs 1 [Restore, Transform (1, 0, 0, 1, 3, 4), Save] ops_init)
       = (1, 0, 0, 1, 3, 4)
   \<and> matrixStack (run_ops example_dom no_objs 1 [Restore, Transform (1, 0, 0, 1, 3, 4), Save] ops_init)
       = [(1, 0, 0, 1, 3, 4)]"
proof -
  have h: "matrixStack ops_init = []" by (simp add: ops_init_def)
  have "run_ops example_dom no_objs 1 [Transform (1, 0, 0, 1, 3, 4), Save]
          (ops_init\<lparr>currentMatrix := (1, 0, 0, 1, 0, 0)\<rparr>)
        = \<lparr>matrixStack = [(1, 0, 0, 1, 3, 4)], currentMatrix = (1, 0, 0, 1, 3, 4),
           pageElements = [], warnings = []\<rparr>"
    by (simp add: run_ops_def pdf_operator_def ops_init_def)
  with restore_on_empty_stack [OF h, of example_dom no_objs 1 "[Transform (1, 0, 0, 1, 3, 4), Save]"] h
  show ?thesis by simp
qed

lemma is_prefix_append: "is_prefix p (p @ b)"
  by (induction p) simp_all

lemma contains_self: "contains p (p @ b)"
  using is_prefix_append [of p b] by (cases "p @ b") auto

lemma contains_middle: "contains p (a @ p @ b)"
proof (induction a)
  case Nil
  show ?case using contains_self by simp
next
  case (Cons c a)
  then show ?case by simp
qed

lemma paint_unsupported:
  assumes "objs imgRef = ObjImage img"
    and "canvas d (img_width img) (img_height img) = Context"
    and "length (img_data img) \<noteq> img_width img * img_height img * 3"
    and "length (img_data img) \<noteq> img_width img * img_height img * 4"
    and "length (img_data img) \<noteq> img_width img * img_height img"
  shows "paintImage d objs pageNum imgRef st
         = st\<lparr>warnings := warnings st @ [unsupportedWarning pageNum (colorSpaceName img)]\<rparr>"
  using assms by (simp add: paintImage_def normalize_def Let_def)

text \<open>
  Claim C5, as the code has it. The test of the byte layout and the warning stand inside
  \<^verbatim>\<open>if (ctx)\<close>. An image-paint operator whose raster is resolved, for which the canvas
  gives a 2D context, and whose data is laid out at neither one, three nor four bytes per
  pixel, adds no page element and appends exactly one warning, which names the page number
  and the colour space; the rest of the state is unchanged and the operators after it are
  interpreted as usual.
\<close>

theorem unsupported_raster_warning:
  assumes "objs imgRef = ObjImage img"
    and "canvas d (img_width img) (img_height img) = Context"
    and "length (img_data img) \<noteq> img_width img * img_height img * 3"
    and "length (img_data img) \<noteq> img_width img * img_height img * 4"
    and "length (img_data img) \<noteq> img_width img * img_height img"
  shows "run_ops d objs pageNum (PaintImageXObject imgRef # ops) st
         = run_ops d objs pageNum ops
             (st\<lparr>warnings := warnings st @ [unsupportedWarning pageNum (colorSpaceName img)]\<rparr>)
    \<and> pageElements (pdf_operator d objs pageNum st (PaintImageXObject imgRef)) = pageElements st
    \<and> contains (show_nat pageNum) (unsupportedWarning pageNum (colorSpaceName img))
    \<and> contains (colorSpaceName img) (unsupportedWarning pageNum (colorSpaceName img))"
proof -
  note p = paint_unsupported [where objs = objs and imgRef = imgRef, OF assms, of pageNum st]
  have a: "run_ops d objs pageNum (PaintImageXObject imgRef # ops) st
         = run_ops d objs pageNum ops
             (st\<lparr>warnings := warnings st @ [unsupportedWarning pageNum (colorSpaceName img)]\<rparr>)"
    by (simp add: run_ops_def pdf_operator_def p)
  have b: "pageElements (pdf_operator d objs pageNum st (PaintImageXObject imgRef)) = pageElements st"
    by (simp add: pdf_operator_def p)
  have c: "contains (show_nat pageNum) (unsupportedWarning pageNum (colorSpaceName img))"
    unfolding unsupportedWarning_def by (rule contains_middle)
  have "contains (colorSpaceName img)
          ((accented ''N~o foi poss^vel processar uma imagem na p`gina '' @ show_nat pageNum
            @ js ''. O formato de cor ('') @ colorSpaceName img @ accented '') n~o | suportado.'')"
    by (rule contains_middle)
  then have e: "contains (colorSpaceName img) (unsupportedWarning pageNum (colorSpaceName img))"
    by (simp add: unsupportedWarning_def)
  from a b c e show ?thesis by simp
qed

theorem unsupported_raster_warning_witness:
  "two_byte_objs (js ''img_p0_1'') = ObjImage two_byte_raster
   \<and> canvas example_dom (img_width two_byte_raster) (img_height two_byte_raster) = Context
   \<and> length (img_data two_byte_raster) = 2 * (img_width two_byte_raster * img_height two_byte_raster)
   \<and> pageElements (run_ops example_dom two_byte_objs 3 [PaintImageXObject (js ''img_p0_1''), Save] ops_init) = []
   \<and> warnings (run_ops example_dom two_byte_objs 3 [PaintImageXObject (js ''img_p0_1''), Save] ops_init)
       = [unsupportedWarning 3 (js ''DeviceN'')]
   \<and> matrixStack (run_ops example_dom two_byte_objs 3 [PaintImageXObject (js ''img_p0_1''), Save] ops_init)
       = [(2, 0, 0, 2, 5, 7)]"
proof -
  have h1: "two_byte_objs (js ''img_p0_1'') = ObjImage two_byte_raster" by (simp add: two_byte_objs_def)
  have h2: "canvas example_dom (img_width two_byte_raster) (img_height two_byte_raster) = Context"
    by (simp add: example_dom_def)
  have h3: "length (img_data two_byte_raster) \<noteq> img_width two_byte_raster * img_height two_byte_raster * 3"
    by (simp add: two_byte_raster_def)
  have h4: "length (img_data two_byte_raster) \<noteq> img_width two_byte_raster * img_height two_byte_raster * 4"
    by (simp add: two_byte_raster_def)
  have h5: "length (img_data two_byte_raster) \<noteq> img_width two_byte_raster * img_height two_byte_raster"
    by (simp add: two_byte_raster_def)
  have h6: "length (img_data two_byte_raster) = 2 * (img_width two_byte_raster * img_height two_byte_raster)"
    by (simp add: two_byte_raster_def)
  have n: "colorSpaceName two_byte_raster = js ''DeviceN''"
    by (simp add: colorSpaceName_def two_byte_raster_def js_def)
  from unsupported_raster_warning [where objs = two_byte_objs and imgRef = "js ''img_p0_1''",
      OF h1 h2 h3 h4 h5, of 3 "[Save]" ops_init]
  have "run_ops example_dom two_byte_objs 3 [PaintImageXObject (js ''img_p0_1''), Save] ops_init
        = run_ops example_dom two_byte_objs 3 [Save]
            (ops_init\<lparr>warnings := warnings ops_init @ [unsupportedWarning 3 (js ''DeviceN'')]\<rparr>)"
    by (simp add: n)
  then show ?thesis using h1 h2 h6
    by (simp add: run_ops_def pdf_operator_def ops_init_def)
qed

text \<open>
  Without a 2D context the same raster, at two bytes per pixel, adds no page element and no
  warning at all.
\<close>

theorem unsupported_raster_no_context_counterexample:
  "two_byte_objs (js ''img_p0_1'') = ObjImage two_byte_raster
   \<and> length (img_data two_byte_raster)
       = 2 * (img_width two_byte_raster * img_height two_byte_raster)
   \<and> canvas no_context_dom (img_width two_byte_raster) (img_height two_byte_raster) = NoContext
   \<and> pageElements (run_ops no_context_dom two_byte_objs 3
         [PaintImageXObject (js ''img_p0_1'')] ops_init) = []
   \<and> warnings (run_ops no_context_dom two_byte_objs 3
         [PaintImageXObject (js ''img_p0_1'')] ops_init) = []"
  by (simp add: two_byte_objs_def two_byte_raster_def no_context_dom_def run_ops_def
      pdf_operator_def paintImage_def ops_init_def)

lemma finalizeBlock_prefix:
  "finalizeBlock (st\<lparr>pdf_doses := ds @ pdf_doses st\<rparr>)
   = (finalizeBlock st)\<lparr>pdf_doses := ds @ pdf_doses (finalizeBlock st)\<rparr>"
  by (simp add: finalizeBlock_def Let_def)

lemma pdf_element_prefix:
  "pdf_element (st\<lparr>pdf_doses := ds @ pdf_doses st\<rparr>) el
   = (pdf_element st el)\<lparr>pdf_doses := ds @ pdf_doses (pdf_element st el)\<rparr>"
  by (cases el) (simp_all add: pdf_element_def Let_def finalizeBlock_prefix)

lemma pdf_fold_prefix:
  "foldl pdf_element (st\<lparr>pdf_doses := ds @ pdf_doses st\<rparr>) els
   = (foldl pdf_element st els)\<lparr>pdf_doses := ds @ pdf_doses (foldl pdf_element st els)\<rparr>"
  by (induction els arbitrary: st) (simp_all add: pdf_element_prefix)

lemma elementsToDoses_prefix: "elementsToDoses ds els = ds @ elementsToDoses [] els"
proof -
  have "page_init ds = (page_init [])\<lparr>pdf_doses := ds @ pdf_doses (page_init [])\<rparr>"
    by (simp add: page_init_def)
  then show ?thesis
    by (simp add: elementsToDoses_def pdf_fold_prefix finalizeBlock_prefix)
qed

lemma pdf_operator_geometry:
  assumes "matrixStack a = matrixStack b" "currentMatrix a = currentMatrix b"
    "pageElements a = pageElements b"
  shows "matrixStack (pdf_operator d objs m a opr) = matrixStack (pdf_operator d objs n b opr)
    \<and> currentMatrix (pdf_operator d objs m a opr) = currentMatrix (pdf_operator d objs n b opr)
    \<and> pageElements (pdf_operator d objs m a opr) = pageElements (pdf_operator d objs n b opr)"
  using assms
  by (cases opr)
     (simp_all add: pdf_operator_def paintImage_def split: objs_result.splits canvas_result.splits option.splits)

lemma run_ops_geometry:
  assumes "matrixStack a = matrixStack b" "currentMatrix a = currentMatrix b"
    "pageElements a = pageElements b"
  shows "pageElements (run_ops d objs m ops a) = pageElements (run_ops d objs n ops b)"
  using assms
proof (induction ops arbitrary: a b)
  case Nil
  then show ?case by (simp add: run_ops_def)
next
  case (Cons opr ops)
  from pdf_operator_geometry [OF Cons.prems, of d objs m opr n]
  have "pageElements (run_ops d objs m ops (pdf_operator d objs m a opr))
        = pageElements (run_ops d objs n ops (pdf_operator d objs n b opr))"
    by (intro Cons.IH) simp_all
  then show ?case by (simp add: run_ops_def)
qed

lemma processPage_doses:
  "fst (processPage d n pg (ds, ws)) = ds @ fst (processPage d 1 pg ([], []))"
proof (cases pg)
  case PageThrows
  then show ?thesis by (simp add: processPage_def)
next
  case (Page items ops objs)
  have "pageElements (run_ops d objs n ops
          \<lparr>matrixStack = [], currentMatrix = identityMatrix,
           pageElements = textLines items, warnings = ws\<rparr>)
        = pageElements (run_ops d objs 1 ops
          \<lparr>matrixStack = [], currentMatrix = identityMatrix,
           pageElements = textLines items, warnings = []\<rparr>)"
    by (rule run_ops_geometry) simp_all
  with Page show ?thesis
    using elementsToDoses_prefix [of ds] by (simp add: processPage_def Let_def)
qed

lemma pdf_pages_doses:
  "fst (pdf_pages d n pgs (ds, ws))
   = ds @ concat (map (\<lambda>pg. fst (processPage d 1 pg ([], []))) pgs)"
proof (induction pgs arbitrary: n ds ws)
  case Nil
  then show ?case by simp
next
  case (Cons pg pgs)
  obtain ds' ws' where r: "processPage d n pg (ds, ws) = (ds', ws')"
    by (cases "processPage d n pg (ds, ws)")
  with processPage_doses [of d n pg ds ws]
  have "ds' = ds @ fst (processPage d 1 pg ([], []))" by simp
  with Cons.IH [of "Suc n" ds' ws'] r show ?case by simp
qed

text \<open>
  Claim C1, as the code has it. The heading stack is declared inside the loop over the pages,
  so every page starts with an empty stack: the doses a page adds do not depend on the pages
  before it. They are the doses of the page extracted on its own, and the doses of a document
  are those of its pages, one page after the other. A block finalized on a page before any
  heading of that page has no breadcrumb.
\<close>

theorem pdf_heading_stack_per_page:
  "fst (extractTextFromPdf d pgs) = concat (map (\<lambda>pg. fst (extractTextFromPdf d [pg])) pgs)
   \<and> fst (processPage d n pg (ds, ws)) = ds @ fst (extractTextFromPdf d [pg])
   \<and> pdf_headingPath (page_init ds) = []"
proof -
  have one: "fst (extractTextFromPdf d [p]) = fst (processPage d 1 p ([], []))" for p
    by (simp add: extractTextFromPdf_def)
  have "fst (extractTextFromPdf d pgs) = concat (map (\<lambda>pg. fst (processPage d 1 pg ([], []))) pgs)"
    using pdf_pages_doses [of d 1 pgs "[]" "[]"] by (simp add: extractTextFromPdf_def)
  moreover have "fst (processPage d n pg (ds, ws)) = ds @ fst (processPage d 1 pg ([], []))"
    by (rule processPage_doses)
  ultimately show ?thesis
    by (simp add: one page_init_def)
qed

theorem pdf_heading_stack_per_page_witness:
  "fst (extractTextFromPdf example_dom [body_page]) = [js ''Body text.'']
   \<and> fst (extractTextFromPdf example_dom [intro_page, body_page])
      = fst (extractTextFromPdf example_dom [intro_page]) @ [js ''Body text.'']"
proof -
  have a: "fst (extractTextFromPdf example_dom [body_page]) = [js ''Body text.'']"
    by code_simp
  from pdf_heading_stack_per_page [of example_dom "[intro_page, body_page]"] a
  show ?thesis by simp
qed

text \<open>
  The heading \<^verbatim>\<open>Intro\<close> is open when the first page ends, and the paragraph that
  starts the second page is emitted without it.
\<close>

theorem pdf_heading_continuity_counterexample:
  "map h_text (pdf_headingPath (foldl pdf_element (page_init [])
       (textLines [line_item ''Intro'' 50 700 20, line_item ''First para.'' 100 650 10])))
     = [js ''Intro'']
   \<and> fst (extractTextFromPdf example_dom [intro_page, body_page])
     = [js ''Intro'' @ [NL, NL] @ js ''First para.'', js ''Body text.'']
   \<and> fst (extractTextFromPdf example_dom [intro_page, body_page])
     \<noteq> [js ''Intro'' @ [NL, NL] @ js ''First para.'', js ''Intro'' @ [NL, NL] @ js ''Body text.'']"
  by code_simp

section \<open>The DOCX adapter: results\<close>

text \<open>
  Claim C10. A heading element, \<^verbatim>\<open>H1\<close> to \<^verbatim>\<open>H6\<close>, whose text trims to the empty
  string leaves the state of the walk as it is: nothing is popped from the heading stack,
  nothing is pushed, no dose is emitted, and the elements after it are processed with the
  breadcrumb that was active before.
\<close>

theorem docx_empty_heading_ignored:
  assumes "toUpperCase (tagName el) = [72, n]" "49 \<le> n" "n \<le> 54" "trim (textContent el) = []"
  shows "docx_node st el = st \<and> foldl docx_node st (el # els) = foldl docx_node st els"
  using assms by (simp add: docx_node_def levelMatch_def Let_def)

theorem docx_empty_heading_ignored_witness:
  "toUpperCase (tagName (Element (js ''h2'') (js ''  '') [] [])) = [72, 50]
   \<and> trim (textContent (Element (js ''h2'') (js ''  '') [] [])) = []
   \<and> docx_doses (foldl docx_node docx_init
        [Element (js ''H1'') (js ''Title'') [] [], Element (js ''h2'') (js ''  '') [] [],
         Element (js ''P'') (js ''Body'') [] []])
      = [js ''Title'' @ [NL, NL] @ js ''Body'']"
proof -
  have a: "toUpperCase (tagName (Element (js ''h2'') (js ''  '') [] [])) = [72, 50]" by code_simp
  have b: "trim (textContent (Element (js ''h2'') (js ''  '') [] [])) = []" by code_simp
  have c: "docx_node docx_init (Element (js ''H1'') (js ''Title'') [] [])
           = \<lparr>docx_doses = [], docx_headingPath = [\<lparr>level = 1, htext = js ''Title''\<rparr>]\<rparr>"
    by code_simp
  have d: "docx_doses (docx_node \<lparr>docx_doses = [], docx_headingPath = [\<lparr>level = 1, htext = js ''Title''\<rparr>]\<rparr>
             (Element (js ''P'') (js ''Body'') [] [])) = [js ''Title'' @ [NL, NL] @ js ''Body'']"
    by code_simp
  from docx_empty_heading_ignored [OF a _ _ b,
      of "\<lparr>docx_doses = [], docx_headingPath = [\<lparr>level = 1, htext = js ''Title''\<rparr>]\<rparr>"]
  have "docx_node \<lparr>docx_doses = [], docx_headingPath = [\<lparr>level = 1, htext = js ''Title''\<rparr>]\<rparr>
          (Element (js ''h2'') (js ''  '') [] [])
        = \<lparr>docx_doses = [], docx_headingPath = [\<lparr>level = 1, htext = js ''Title''\<rparr>]\<rparr>"
    by simp
  with a b c d show ?thesis by simp
qed

lemma split_nlnl_covers:
  "c \<in> set cur \<union> set s \<Longrightarrow> c \<noteq> NL \<Longrightarrow> \<exists>p\<in>set (split_nlnl cur s). c \<in> set p"
  by (induction cur s rule: split_nlnl.induct) (auto split: if_splits)

lemma raw_text_doses_not_Nil:
  assumes "trim s \<noteq> []"
  shows "filter (\<lambda>p. trim p \<noteq> []) (split_nlnl [] s) \<noteq> []"
proof -
  from assms obtain c where c: "c \<in> set s" "\<not> is_ws c"
    using trim_eq_Nil_iff by blast
  then have "c \<noteq> NL" by (auto simp: is_ws_def NL_def)
  with c obtain p where p: "p \<in> set (split_nlnl [] s)" "c \<in> set p"
    using split_nlnl_covers [of c "[]" s] by auto
  with c have "trim p \<noteq> []" using trim_eq_Nil_iff by blast
  with p show ?thesis by (auto simp: filter_empty_conv)
qed

text \<open>
  Claim C6, as the code has it. When the walk over the body yields no dose, the conversion
  gave no warning message, and the raw text of the body is not blank, the adapter returns the
  pieces of the raw text between occurrences of two line feeds that are not blank, at least
  one, together with the single warning that no clear structure could be identified.
\<close>

theorem docx_raw_text_fallback:
  assumes "docx_doses (foldl docx_node docx_init body) = []"
    and "\<forall>msg\<in>set messages. fst msg \<noteq> js ''warning''"
    and "trim bodyText \<noteq> []"
  shows "extractTextFromDocx (Converted messages body bodyText)
         = (filter (\<lambda>p. trim p \<noteq> []) (split_nlnl [] bodyText), [noStructureWarning])
    \<and> filter (\<lambda>p. trim p \<noteq> []) (split_nlnl [] bodyText) \<noteq> []"
proof -
  have w: "filter (\<lambda>msg. fst msg = js ''warning'') messages = []"
    using assms(2) by (simp add: filter_empty_conv)
  note r = raw_text_doses_not_Nil [OF assms(3)]
  with assms(1,3) w show ?thesis
    by (simp add: extractTextFromDocx_def Let_def)
qed

theorem docx_raw_text_fallback_witness:
  "docx_doses (foldl docx_node docx_init [Element (js ''H1'') (js ''Title'') [] []]) = []
   \<and> trim (js ''Title'' @ [NL, NL] @ js ''loose text'') \<noteq> []
   \<and> extractTextFromDocx
        (Converted [(js ''info'', js ''note'')] [Element (js ''H1'') (js ''Title'') [] []]
           (js ''Title'' @ [NL, NL] @ js ''loose text''))
      = ([js ''Title'', js ''loose text''], [noStructureWarning])"
proof -
  have a: "docx_doses (foldl docx_node docx_init [Element (js ''H1'') (js ''Title'') [] []]) = []"
    by code_simp
  have b: "\<forall>msg\<in>set [(js ''info'', js ''note'')]. fst msg \<noteq> js ''warning''"
    by (simp add: js_def)
  have c: "trim (js ''Title'' @ [NL, NL] @ js ''loose text'') \<noteq> []" by code_simp
  have d: "filter (\<lambda>p. trim p \<noteq> []) (split_nlnl [] (js ''Title'' @ [NL, NL] @ js ''loose text''))
           = [js ''Title'', js ''loose text'']"
    by code_simp
  from docx_raw_text_fallback [OF a b c] a c d show ?thesis by simp
qed

text \<open>
  Without the condition on the messages the fallback is not taken: a document of one heading
  that was converted with a warning yields no dose, has raw text, and comes back with no dose
  and the converter's warning alone.
\<close>

theorem docx_fallback_counterexample:
  "docx_doses (foldl docx_node docx_init [Element (js ''H1'') (js ''Title'') [] []]) = []
   \<and> trim (js ''Title'') \<noteq> []
   \<and> extractTextFromDocx
        (Converted [(js ''warning'', js ''Unrecognised paragraph style'')]
           [Element (js ''H1'') (js ''Title'') [] []] (js ''Title''))
      = ([], [js ''Unrecognised paragraph style''])"
  by code_simp

end
